theory Spec2Isabelle
  imports Complex_Main "HOL-Library.Word"
begin

section \<open>Python strings\<close>

text \<open>
  The backend (\<^verbatim>\<open>src/backend/main.py\<close>) works on Python \<^verbatim>\<open>str\<close> values. A \<^typ>\<open>char\<close>
  stands for one code point; the tables below (\<^verbatim>\<open>str.isspace\<close>, \<^verbatim>\<open>str.lower\<close>) are
  Python's on the code points 0 to 255, the range \<^typ>\<open>char\<close> has. Uploaded file
  contents are byte sequences.
\<close>

type_synonym bytes = "8 word list"

definition py_isspace :: "char \<Rightarrow> bool" where
  \<open>py_isspace c =
     (let n = (of_char c :: nat)
      in (9 \<le> n \<and> n \<le> 13) \<or> (28 \<le> n \<and> n \<le> 32) \<or> n = 133 \<or> n = 160)\<close>

definition lower_char :: "char \<Rightarrow> char" where
  \<open>lower_char c =
     (let n = (of_char c :: nat)
      in if (65 \<le> n \<and> n \<le> 90) \<or> (192 \<le> n \<and> n \<le> 222 \<and> n \<noteq> 215)
         then char_of (n + 32) else c)\<close>

definition py_lower :: "string \<Rightarrow> string" where
  \<open>py_lower s = map lower_char s\<close>

text \<open>\<^verbatim>\<open>s.strip()\<close>: whitespace is removed at both ends.\<close>

definition py_strip :: "string \<Rightarrow> string" where
  \<open>py_strip s = rev (dropWhile py_isspace (rev (dropWhile py_isspace s)))\<close>

text \<open>\<^verbatim>\<open>s.split(sep)\<close> for a separator of one character: never an empty list.\<close>

fun py_split :: "char \<Rightarrow> string \<Rightarrow> string list" where
  \<open>py_split sep [] = [[]]\<close>
| \<open>py_split sep (c # cs) =
     (if c = sep then [] # py_split sep cs
      else (c # hd (py_split sep cs)) # tl (py_split sep cs))\<close>

text \<open>\<^verbatim>\<open>sep.join(parts)\<close>.\<close>

fun py_join :: "string \<Rightarrow> string list \<Rightarrow> string" where
  \<open>py_join sep [] = []\<close>
| \<open>py_join sep [x] = x\<close>
| \<open>py_join sep (x # y # ys) = x @ sep @ py_join sep (y # ys)\<close>

text \<open>\<^verbatim>\<open>s.startswith(p)\<close>.\<close>

definition py_startswith :: "string \<Rightarrow> string \<Rightarrow> bool" where
  \<open>py_startswith s p = (take (length p) s = p)\<close>

text \<open>\<^verbatim>\<open>sub in s\<close> on strings: \<open>sub\<close> occurs in \<open>s\<close> as a contiguous piece.\<close>

fun py_in :: "string \<Rightarrow> string \<Rightarrow> bool" where
  \<open>py_in sub [] = (sub = [])\<close>
| \<open>py_in sub (c # cs) = (py_startswith (c # cs) sub \<or> py_in sub cs)\<close>

section \<open>Values, exceptions, collaborators\<close>

text \<open>
  A Python \<^verbatim>\<open>float\<close>: a finite one by its exact value, or one of the three others
  (\<^verbatim>\<open>json.loads\<close> reads \<^verbatim>\<open>1e999\<close> as \<^verbatim>\<open>inf\<close> and accepts \<^verbatim>\<open>NaN\<close>, \<^verbatim>\<open>Infinity\<close>,
  \<^verbatim>\<open>-Infinity\<close>).
\<close>

datatype pyfloat = Finite rat | Infinity | MinusInfinity | NaN

text \<open>
  What \<^verbatim>\<open>json.loads\<close> returns: a Python object built from \<^verbatim>\<open>None\<close>, booleans,
  \<^verbatim>\<open>int\<close>, \<^verbatim>\<open>float\<close>, \<^verbatim>\<open>str\<close>, lists and dicts (in key order).
\<close>

datatype json =
    JNull
  | JBool bool
  | JInt int
  | JFloat pyfloat
  | JString string
  | JArray "json list"
  | JObject "(string \<times> json) list"

text \<open>\<^verbatim>\<open>HTTPException(status_code=..., detail=...)\<close>, the only exception that leaves the
  functions below, and a \<^verbatim>\<open>JSONResponse(status_code=..., content=...)\<close> that was built.\<close>

datatype http_exception = HTTPException (status_code: nat) (detail: string)

datatype response = JSONResponse (status: nat) (content: json)

text \<open>
  \<^verbatim>\<open>json.loads\<close> raises \<^verbatim>\<open>json.JSONDecodeError\<close> on a text that is not JSON; any other
  exception it may raise falls into the \<^verbatim>\<open>except Exception\<close> clause of its caller. Each
  carries \<^verbatim>\<open>str(e)\<close>.
\<close>

datatype loads_error = JSONDecodeError string | OtherError string

text \<open>
  The process-wide configuration and the libraries the backend calls; they are not code
  of the repository, so they are parameters of the model:
  \<^item> \<open>GEMINI_API_KEY\<close>: \<^verbatim>\<open>os.getenv("GEMINI_API_KEY")\<close>, read once at start;
  \<^item> \<open>PdfReader\<close>: the page texts \<^verbatim>\<open>page.extract_text()\<close> of \<^verbatim>\<open>PdfReader(...).pages\<close>,
    or \<^verbatim>\<open>str(e)\<close> of the exception the reader raises;
  \<^item> \<open>Document\<close>: the \<^verbatim>\<open>paragraph.text\<close> of \<^verbatim>\<open>Document(...).paragraphs\<close>, or \<^verbatim>\<open>str(e)\<close>;
  \<^item> \<open>generate_content\<close>: \<^verbatim>\<open>model.generate_content(prompt)\<close> followed by
    \<^verbatim>\<open>response.text\<close>: the text, or \<^verbatim>\<open>str(e)\<close> of the exception raised on the way;
  \<^item> \<open>json_loads\<close>: \<^verbatim>\<open>json.loads\<close>;
  \<^item> \<open>render\<close>: the constructor of \<^verbatim>\<open>JSONResponse\<close> renders its content at once; \<open>None\<close>
    when it renders, or \<^verbatim>\<open>str(e)\<close> of the exception it raises on a content it cannot
    render (a float that is not finite, a string with a lone surrogate, nesting too deep).
\<close>

record env =
  GEMINI_API_KEY :: "string option"
  PdfReader :: "bytes \<Rightarrow> string + string list"
  Document :: "bytes \<Rightarrow> string + string list"
  generate_content :: "string \<Rightarrow> string + string"
  json_loads :: "string \<Rightarrow> loads_error + json"
  render :: "json \<Rightarrow> string option"

text \<open>\<^verbatim>\<open>UploadFile\<close>: its \<^verbatim>\<open>filename\<close> and what \<^verbatim>\<open>await resumeFile.read()\<close> gives, the
  bytes or \<^verbatim>\<open>str(e)\<close> of an exception.\<close>

record upload_file =
  filename :: string
  read :: "string + bytes"

record request =
  resumeFile :: "upload_file option"
  jobDescription :: string

text \<open>
  What a call does besides returning: the lines it prints (one constructor for each
  \<^verbatim>\<open>print\<close> of the request path, with the values it interpolates), the read of the upload,
  the entry into \<^verbatim>\<open>extract_text_from_file\<close> and the call of the AI with its prompt.
\<close>

datatype log_line =
    ReadingFile string
  | ExtractingText
  | ExtractedCharacters nat
  | AnalyzingWithGemini
  | CallingGemini
  | AnalysisCompleted
  | JsonParsingError string
  | ResponseText string
  | GeminiApiError string
  | ReturningResults
  | UnexpectedError string

datatype event =
    Print log_line
  | ReadFile
  | ExtractText
  | GenerateContent string

text \<open>Truth value of \<^verbatim>\<open>GEMINI_API_KEY\<close>: \<^verbatim>\<open>None\<close> and the empty string are false.\<close>

definition truthy :: "string option \<Rightarrow> bool" where
  \<open>truthy k = (case k of None \<Rightarrow> False | Some s \<Rightarrow> s \<noteq> [])\<close>

section \<open>File processing\<close>

text \<open>\<^verbatim>\<open>filename.lower().split('.')[-1]\<close>, as \<^verbatim>\<open>extract_text_from_file\<close> and
  \<^verbatim>\<open>analyze_resume\<close> both compute it.\<close>

definition file_extension :: "string \<Rightarrow> string" where
  \<open>file_extension name = last (py_split (CHR ''.'') (py_lower name))\<close>

definition extract_text_from_pdf :: "env \<Rightarrow> bytes \<Rightarrow> http_exception + string" where
  \<open>extract_text_from_pdf e file_content =
     (case PdfReader e file_content of
        Inl msg \<Rightarrow> Inl (HTTPException 400 (''Error extracting PDF: '' @ msg))
      | Inr pages \<Rightarrow>
          Inr (py_strip (foldl (\<lambda>text page. text @ page @ ''\<newline>'') [] pages)))\<close>

definition extract_text_from_docx :: "env \<Rightarrow> bytes \<Rightarrow> http_exception + string" where
  \<open>extract_text_from_docx e file_content =
     (case Document e file_content of
        Inl msg \<Rightarrow> Inl (HTTPException 400 (''Error extracting DOCX: '' @ msg))
      | Inr paragraphs \<Rightarrow>
          Inr (py_strip (foldl (\<lambda>text paragraph. text @ paragraph @ ''\<newline>'') [] paragraphs)))\<close>

definition extract_text_from_file :: "env \<Rightarrow> string \<Rightarrow> bytes \<Rightarrow> http_exception + string" where
  \<open>extract_text_from_file e name file_content =
     (if file_extension name = ''pdf'' then extract_text_from_pdf e file_content
      else if file_extension name = ''docx'' then extract_text_from_docx e file_content
      else Inl (HTTPException 400
                 (''Unsupported file format: '' @ file_extension name
                  @ ''. Only PDF and DOCX are supported.'')))\<close>

section \<open>AI processing\<close>

definition build_analysis_prompt :: "string \<Rightarrow> string \<Rightarrow> string" where
  \<open>build_analysis_prompt resume_text job_description =
  ''You are an expert ATS (Applicant Tracking System) analyzer and career consultant. \<newline>'' @
  ''Analyze the following resume against the job description and provide a comprehensive analysis.\<newline>'' @
  ''\<newline>'' @
  ''RESUME CONTENT:\<newline>'' @
  resume_text @ ''\<newline>'' @
  ''\<newline>'' @
  ''JOB DESCRIPTION:\<newline>'' @
  job_description @ ''\<newline>'' @
  ''\<newline>'' @
  ''Provide your analysis in the following JSON format (respond ONLY with valid JSON, no markdown, no extra text):\<newline>'' @
  ''\<newline>'' @
  ''{\<newline>'' @
  ''    "atsScore": <number between 0-100>,\<newline>'' @
  ''    "summary": "<2-3 sentence summary of candidate's fit for the role>",\<newline>'' @
  ''    "categoryScores": {\<newline>'' @
  ''        "hardSkills": <score 0-5>,\<newline>'' @
  ''        "softSkills": <score 0-5>,\<newline>'' @
  ''        "experience": <score 0-5>,\<newline>'' @
  ''        "qualifications": <score 0-5>\<newline>'' @
  ''    },\<newline>'' @
  ''    "strengths": [\<newline>'' @
  ''        "<strength 1>",\<newline>'' @
  ''        "<strength 2>",\<newline>'' @
  ''        "<strength 3>"\<newline>'' @
  ''    ],\<newline>'' @
  ''    "weaknesses": [\<newline>'' @
  ''        "<weakness 1>",\<newline>'' @
  ''        "<weakness 2>",\<newline>'' @
  ''        "<weakness 3>"\<newline>'' @
  ''    ],\<newline>'' @
  ''    "recommendations": [\<newline>'' @
  ''        "<actionable recommendation 1>",\<newline>'' @
  ''        "<actionable recommendation 2>",\<newline>'' @
  ''        "<actionable recommendation 3>"\<newline>'' @
  ''    ]\<newline>'' @
  ''}\<newline>'' @
  ''\<newline>'' @
  ''ANALYSIS CRITERIA:\<newline>'' @
  ''- ATS Score: Overall match percentage (0-100)\<newline>'' @
  ''- Hard Skills: Technical skills match (0-5)\<newline>'' @
  ''- Soft Skills: Communication, leadership, teamwork (0-5)\<newline>'' @
  ''- Experience: Relevant work experience (0-5)\<newline>'' @
  ''- Qualifications: Education and certifications (0-5)\<newline>'' @
  ''- Strengths: Top 3 positive highlights\<newline>'' @
  ''- Weaknesses: Top 3 areas for improvement\<newline>'' @
  ''- Recommendations: Top 3 actionable suggestions to improve the resume\<newline>'' @
  ''\<newline>'' @
  ''Be honest, constructive, and specific in your analysis.\<newline>''\<close>

text \<open>
  Lines 226 to 232 of \<^verbatim>\<open>analyze_with_gemini\<close>: the response text is stripped; if it then
  starts with three backticks it is split at newlines and \<^verbatim>\<open>lines[1:-1]\<close>, all lines but
  the first and the last, are joined again.
\<close>

definition clean_response_text :: "string \<Rightarrow> string" where
  \<open>clean_response_text text =
     (let response_text = py_strip text
      in if py_startswith response_text ''```''
         then (let lines = py_split (CHR ''\<newline>'') response_text
               in py_join ''\<newline>'' (butlast (tl lines)))
         else response_text)\<close>

definition analyze_with_gemini ::
  "env \<Rightarrow> string \<Rightarrow> string \<Rightarrow> (http_exception + json) \<times> event list" where
  \<open>analyze_with_gemini e resume_text job_description =
     (let prompt = build_analysis_prompt resume_text job_description;
          called = [Print CallingGemini, GenerateContent prompt]
      in case generate_content e prompt of
           Inl msg \<Rightarrow>
             (Inl (HTTPException 500 (''Error calling Gemini AI: '' @ msg)),
              called @ [Print (GeminiApiError msg)])
         | Inr text \<Rightarrow>
             (let response_text = clean_response_text text
              in case json_loads e response_text of
                   Inr analysis_result \<Rightarrow>
                     (Inr analysis_result, called @ [Print AnalysisCompleted])
                 | Inl (JSONDecodeError msg) \<Rightarrow>
                     (Inl (HTTPException 500 (''Failed to parse AI response as JSON: '' @ msg)),
                      called @ [Print (JsonParsingError msg), Print (ResponseText response_text)])
                 | Inl (OtherError msg) \<Rightarrow>
                     (Inl (HTTPException 500 (''Error calling Gemini AI: '' @ msg)),
                      called @ [Print (GeminiApiError msg)])))\<close>

section \<open>Endpoints\<close>

text \<open>\<^verbatim>\<open>GET /api/resume/health\<close>: the dict returned, in key order.\<close>

definition health_check :: "env \<Rightarrow> (string \<times> json) list" where
  \<open>health_check e =
     [(''status'', JString ''healthy''),
      (''message'', JString ''Resume Analyzer API is running!''),
      (''gemini_configured'', JBool (truthy (GEMINI_API_KEY e)))]\<close>

text \<open>
  The \<^verbatim>\<open>try\<close> block of \<^verbatim>\<open>analyze_resume\<close> (lines 337 to 375): an \<^verbatim>\<open>HTTPException\<close> is
  raised again as it is, any other exception becomes a 500. Two calls in the block can
  raise another exception: the read of the upload, and the construction of the
  \<^verbatim>\<open>JSONResponse\<close>, after \<^verbatim>\<open>Returning analysis results\<close> was printed.
\<close>

definition analyze_resume_try ::
  "env \<Rightarrow> upload_file \<Rightarrow> string \<Rightarrow> (http_exception + response) \<times> event list" where
  \<open>analyze_resume_try e file job_description =
     (let reading = [Print (ReadingFile (filename file)), ReadFile]
      in case read file of
           Inl msg \<Rightarrow>
             (Inl (HTTPException 500 (''Internal server error: '' @ msg)),
              reading @ [Print (UnexpectedError msg)])
         | Inr file_content \<Rightarrow>
             (let extracting = reading @ [Print ExtractingText, ExtractText]
              in case extract_text_from_file e (filename file) file_content of
                   Inl err \<Rightarrow> (Inl err, extracting)
                 | Inr resume_text \<Rightarrow>
                     if resume_text = [] \<or> length (py_strip resume_text) < 50
                     then (Inl (HTTPException 400
                                 ''Could not extract enough text from resume. Please ensure the file is not corrupted or password-protected.''),
                           extracting)
                     else (let analyzing = extracting
                                 @ [Print (ExtractedCharacters (length resume_text)),
                                    Print AnalyzingWithGemini]
                           in case analyze_with_gemini e resume_text job_description of
                                (Inl err, events) \<Rightarrow> (Inl err, analyzing @ events)
                              | (Inr analysis_result, events) \<Rightarrow>
                                  (case render e analysis_result of
                                     None \<Rightarrow>
                                       (Inr (JSONResponse 200 analysis_result),
                                        analyzing @ events @ [Print ReturningResults])
                                   | Some msg \<Rightarrow>
                                       (Inl (HTTPException 500
                                              (''Internal server error: '' @ msg)),
                                        analyzing @ events
                                        @ [Print ReturningResults,
                                           Print (UnexpectedError msg)])))))\<close>

text \<open>\<^verbatim>\<open>POST /api/resume/analyze\<close>: the checks before the \<^verbatim>\<open>try\<close> block, in the order of
  the source, then the block.\<close>

definition analyze_resume :: "env \<Rightarrow> request \<Rightarrow> (http_exception + response) \<times> event list" where
  \<open>analyze_resume e req =
     (if \<not> truthy (GEMINI_API_KEY e)
      then (Inl (HTTPException 500
                  ''Gemini API key not configured. Please add GEMINI_API_KEY to .env file''), [])
      else case resumeFile req of
             None \<Rightarrow> (Inl (HTTPException 400 ''Resume file is required''), [])
           | Some file \<Rightarrow>
               if jobDescription req = [] \<or> py_strip (jobDescription req) = []
               then (Inl (HTTPException 400 ''Job description is required''), [])
               else (let allowed_extensions = [''pdf'', ''docx'']
                     in if file_extension (filename file) \<notin> set allowed_extensions
                        then (Inl (HTTPException 400
                                    (''Invalid file type. Allowed: ''
                                     @ py_join '', '' allowed_extensions)), [])
                        else analyze_resume_try e file (jobDescription req)))\<close>

text \<open>How often the AI was called in a run.\<close>

definition ai_calls :: "event list \<Rightarrow> nat" where
  \<open>ai_calls events = length (filter (\<lambda>ev. case ev of GenerateContent p \<Rightarrow> True | _ \<Rightarrow> False) events)\<close>

section \<open>The specification's notions\<close>

text \<open>
  The extension as the specification words it: the substring after the last \<^verbatim>\<open>'.'\<close> in
  the filename, lower-cased (the whole filename when it has no \<^verbatim>\<open>'.'\<close>).
\<close>

definition extension_after_last_dot :: "string \<Rightarrow> string" where
  \<open>extension_after_last_dot name =
     py_lower (rev (takeWhile (\<lambda>c. c \<noteq> CHR ''.'') (rev name)))\<close>

text \<open>
  The shape of an AnalysisResult, in the words of the specification's data model; the
  backend has no function that checks it. \<open>atsScore\<close> is an integer
  from 0 to 100, \<open>summary\<close> a string, \<open>categoryScores\<close> a mapping with exactly the four
  keys, each a number from 0 to 5, and \<open>strengths\<close>, \<open>weaknesses\<close>, \<open>recommendations\<close>
  sequences of strings.
\<close>

definition category_score :: "json \<Rightarrow> bool" where
  \<open>category_score j =
     (case j of JInt n \<Rightarrow> 0 \<le> n \<and> n \<le> 5 | JFloat (Finite r) \<Rightarrow> 0 \<le> r \<and> r \<le> 5
              | _ \<Rightarrow> False)\<close>

definition string_sequence :: "json \<Rightarrow> bool" where
  \<open>string_sequence j =
     (case j of
        JArray xs \<Rightarrow> list_all (\<lambda>x. case x of JString s \<Rightarrow> True | _ \<Rightarrow> False) xs
      | _ \<Rightarrow> False)\<close>

definition category_keys :: "string list" where
  \<open>category_keys = [''hardSkills'', ''softSkills'', ''experience'', ''qualifications'']\<close>

definition analysis_result_shape :: "json \<Rightarrow> bool" where
  \<open>analysis_result_shape j =
     (case j of
        JObject members \<Rightarrow>
          (case map_of members ''atsScore'' of Some (JInt n) \<Rightarrow> 0 \<le> n \<and> n \<le> 100 | _ \<Rightarrow> False)
          \<and> (case map_of members ''summary'' of Some (JString s) \<Rightarrow> True | _ \<Rightarrow> False)
          \<and> (case map_of members ''categoryScores'' of
                Some (JObject scores) \<Rightarrow>
                  set (map fst scores) = set category_keys
                  \<and> list_all (\<lambda>k. case map_of scores k of Some v \<Rightarrow> category_score v
                                                         | None \<Rightarrow> False) category_keys
              | _ \<Rightarrow> False)
          \<and> list_all (\<lambda>k. case map_of members k of Some v \<Rightarrow> string_sequence v | None \<Rightarrow> False)
                [''strengths'', ''weaknesses'', ''recommendations'']
      | _ \<Rightarrow> False)\<close>

text \<open>A response that wraps the text \<open>j\<close> in a fence:
  \<^verbatim>\<open>```json\<close>, newline, \<open>j\<close>, newline, \<^verbatim>\<open>```\<close>.\<close>

definition fenced :: "string \<Rightarrow> string" where
  \<open>fenced j = ''```json'' @ ''\<newline>'' @ j @ ''\<newline>'' @ ''```''\<close>

section \<open>Sample collaborators and requests\<close>

text \<open>
  A concrete environment for running the model. \<open>sample_loads\<close> knows three JSON texts,
  on which it returns what \<^verbatim>\<open>json.loads\<close> returns; it is applied below to these three
  and to texts that start with no JSON value, where \<^verbatim>\<open>json.loads\<close> raises the error
  shown. \<open>sample_render\<close> refuses a content that holds a float that is not finite, with the
  message of \<^verbatim>\<open>json.dumps(..., allow_nan=False)\<close>, and renders any other.
\<close>

definition sample_loads :: "string \<Rightarrow> loads_error + json" where
  \<open>sample_loads s =
     (if s = ''{"atsScore": 82}'' then Inr (JObject [(''atsScore'', JInt 82)])
      else if s = ''{"atsScore": 150}'' then Inr (JObject [(''atsScore'', JInt 150)])
      else if s = ''{"atsScore": 1e999}'' then Inr (JObject [(''atsScore'', JFloat Infinity)])
      else Inl (JSONDecodeError ''Expecting value: line 1 column 1 (char 0)''))\<close>

fun finite_floats :: "json \<Rightarrow> bool" where
  \<open>finite_floats (JFloat f) = (case f of Finite r \<Rightarrow> True | _ \<Rightarrow> False)\<close>
| \<open>finite_floats (JArray xs) = list_all finite_floats xs\<close>
| \<open>finite_floats (JObject members) = list_all (\<lambda>member. finite_floats (snd member)) members\<close>
| \<open>finite_floats _ = True\<close>

definition sample_render :: "json \<Rightarrow> string option" where
  \<open>sample_render v =
     (if finite_floats v then None
      else Some ''Out of range float values are not JSON compliant'')\<close>

definition sample_text :: string where
  \<open>sample_text = ''5 years of experience with Python and SQL in backend teams''\<close>

definition sample_env :: env where
  \<open>sample_env =
     \<lparr>GEMINI_API_KEY = Some ''secret'',
      PdfReader = (\<lambda>b. Inr [sample_text]),
      Document = (\<lambda>b. Inr [''Python and SQL'']),
      generate_content = (\<lambda>p. Inr ''{"atsScore": 82}''),
      json_loads = sample_loads,
      render = sample_render\<rparr>\<close>

definition sample_file :: upload_file where
  \<open>sample_file = \<lparr>filename = ''Resume.PDF'', read = Inr [37, 80, 68, 70]\<rparr>\<close>

definition sample_request :: request where
  \<open>sample_request =
     \<lparr>resumeFile = Some sample_file,
      jobDescription = ''Looking for a Python backend engineer''\<rparr>\<close>

section \<open>Facts about the string operations\<close>

lemmas py_eval = py_strip_def py_isspace_def py_startswith_def py_lower_def lower_char_def
  file_extension_def char_of_eq_iff

lemmas sample_defs = sample_env_def sample_request_def sample_file_def sample_text_def
  sample_loads_def sample_render_def

lemma py_split_not_Nil: "py_split sep s \<noteq> []"
  by (induction s) auto

lemma py_split_no_sep: "sep \<notin> set s \<Longrightarrow> py_split sep s = [s]"
  by (induction s) auto

lemma py_split_append: "py_split sep (a @ sep # b) = py_split sep a @ py_split sep b"
  by (induction a) (auto simp: py_split_not_Nil)

lemma py_join_Cons_Cons: "py_join [sep] ((x # w) # rest) = x # py_join [sep] (w # rest)"
  by (cases rest) auto

lemma py_join_Cons: "py_join sep (x # xs) = x @ (if xs = [] then [] else sep @ py_join sep xs)"
  by (cases xs) auto

text \<open>Joining what was split gives the text back.\<close>

lemma py_join_split: "py_join [sep] (py_split sep s) = s"
proof (induction s)
  case Nil
  show ?case by simp
next
  case (Cons c cs)
  obtain w ws where r: "py_split sep cs = w # ws"
    using py_split_not_Nil [of sep cs] by (cases "py_split sep cs") auto
  show ?case
  proof (cases "c = sep")
    case True
    with Cons r show ?thesis by simp
  next
    case False
    with Cons r show ?thesis by (simp add: py_join_Cons_Cons)
  qed
qed

text \<open>Splitting joined lines gives the lines back, when no line holds the separator.\<close>

lemma py_split_join:
  "ls \<noteq> [] \<Longrightarrow> \<forall>l\<in>set ls. sep \<notin> set l \<Longrightarrow> py_split sep (py_join [sep] ls) = ls"
proof (induction ls)
  case Nil
  then show ?case by simp
next
  case (Cons x xs)
  show ?case
  proof (cases "xs = []")
    case True
    with Cons.prems show ?thesis by (simp add: py_split_no_sep)
  next
    case False
    with Cons show ?thesis
      by (simp add: py_join_Cons py_split_append py_split_no_sep)
  qed
qed

lemma py_join_snoc_not_Nil: "l \<noteq> [] \<Longrightarrow> py_join sep (xs @ [l]) \<noteq> []"
  by (induction xs) (auto simp: py_join_Cons)

lemma last_py_join: "l \<noteq> [] \<Longrightarrow> last (py_join sep (xs @ [l])) = last l"
  by (induction xs) (auto simp: py_join_Cons py_join_snoc_not_Nil)

text \<open>The last piece of a split is what follows the last separator.\<close>

lemma last_py_split: "last (py_split sep s) = rev (takeWhile (\<lambda>c. c \<noteq> sep) (rev s))"
proof (cases "sep \<in> set s")
  case False
  then have tw: "takeWhile (\<lambda>c. c \<noteq> sep) (rev s) = rev s"
    by (auto simp add: takeWhile_eq_all_conv)
  show ?thesis unfolding py_split_no_sep [OF False] tw by simp
next
  case True
  then obtain a b where s: "s = a @ sep # b" and b: "sep \<notin> set b"
    by (auto dest: split_list_last)
  have "takeWhile (\<lambda>c. c \<noteq> sep) (rev b @ sep # rev a) = rev b"
    using b by (auto simp add: takeWhile_tail)
  then have tw: "rev (takeWhile (\<lambda>c. c \<noteq> sep) (rev s)) = b"
    unfolding s by simp
  have "last (py_split sep s) = b"
    unfolding s by (simp add: py_split_append py_split_no_sep [OF b] py_split_not_Nil)
  with tw show ?thesis by simp
qed

lemma py_strip_id:
  "s \<noteq> [] \<Longrightarrow> \<not> py_isspace (hd s) \<Longrightarrow> \<not> py_isspace (last s) \<Longrightarrow> py_strip s = s"
proof -
  assume a: "s \<noteq> []" "\<not> py_isspace (hd s)" "\<not> py_isspace (last s)"
  then have 1: "dropWhile py_isspace s = s" by (cases s) auto
  from a have 2: "dropWhile py_isspace (rev s) = rev s"
    by (cases "rev s") (auto simp: hd_rev)
  show ?thesis by (simp add: py_strip_def 1 2)
qed

text \<open>A text strips to nothing exactly when it is empty or blank.\<close>

lemma py_strip_Nil_iff: "py_strip s = [] \<longleftrightarrow> (\<forall>c\<in>set s. py_isspace c)"
proof
  assume "py_strip s = []"
  then have a: "\<forall>c\<in>set (dropWhile py_isspace s). py_isspace c"
    by (simp add: py_strip_def)
  have "dropWhile py_isspace s = []"
  proof (rule ccontr)
    assume n: "dropWhile py_isspace s \<noteq> []"
    then have "\<not> py_isspace (hd (dropWhile py_isspace s))" by (rule hd_dropWhile)
    moreover from n have "hd (dropWhile py_isspace s) \<in> set (dropWhile py_isspace s)" by simp
    ultimately show False using a by blast
  qed
  then show "\<forall>c\<in>set s. py_isspace c" by simp
next
  assume "\<forall>c\<in>set s. py_isspace c"
  then show "py_strip s = []" by (auto simp: py_strip_def dest: set_dropWhileD)
qed

text \<open>Lower-casing neither makes nor removes a dot.\<close>

lemma lower_char_dot: "lower_char c = CHR ''.'' \<longleftrightarrow> c = CHR ''.''"
proof -
  have "(of_char c :: nat) < 256" by simp
  then show ?thesis
    by (auto simp: lower_char_def Let_def char_of_eq_iff take_bit_eq_mod)
qed

text \<open>The extension the code computes is the one the specification describes.\<close>

lemma file_extension_refines: "file_extension name = extension_after_last_dot name"
proof -
  have "takeWhile (\<lambda>c. c \<noteq> CHR ''.'') (map lower_char xs)
        = map lower_char (takeWhile (\<lambda>c. c \<noteq> CHR ''.'') xs)" for xs
    by (induction xs) (auto simp: lower_char_dot)
  then show ?thesis
    by (simp add: file_extension_def extension_after_last_dot_def py_lower_def
        last_py_split rev_map)
qed


text \<open>What the fence removal does.\<close>

lemma clean_fenced: \<open>clean_response_text (fenced j) = j\<close>
proof -
  let ?t = \<open>''```json'' @ ''\<newline>'' @ j @ ''\<newline>'' @ ''```''\<close>
  have st: "py_strip ?t = ?t"
    by (rule py_strip_id) (simp_all add: py_isspace_def)
  have sw: \<open>py_startswith ?t ''```''\<close>
    by (simp add: py_startswith_def)
  have \<open>?t = ''```json'' @ CHR ''\<newline>'' # (j @ CHR ''\<newline>'' # ''```'')\<close> by simp
  then have \<open>py_split (CHR ''\<newline>'') ?t
      = py_split (CHR ''\<newline>'') ''```json''
        @ py_split (CHR ''\<newline>'') j @ py_split (CHR ''\<newline>'') ''```''\<close>
    by (simp only: py_split_append)
  then have sp: \<open>py_split (CHR ''\<newline>'') ?t
      = ''```json'' # py_split (CHR ''\<newline>'') j @ [''```'']\<close>
    by simp
  have \<open>clean_response_text ?t
        = py_join ''\<newline>'' (butlast (tl (py_split (CHR ''\<newline>'') ?t)))\<close>
    unfolding clean_response_text_def st Let_def using sw by simp
  also have \<open>\<dots> = py_join ''\<newline>'' (py_split (CHR ''\<newline>'') j)\<close>
    unfolding sp by (simp add: butlast_append)
  also have \<open>\<dots> = j\<close> by (rule py_join_split)
  finally show ?thesis unfolding fenced_def .
qed

lemma clean_unfenced:
  \<open>\<not> py_startswith (py_strip t) ''```'' \<Longrightarrow> clean_response_text t = py_strip t\<close>
  by (simp add: clean_response_text_def Let_def)

lemma clean_starts_fenced:
  \<open>py_startswith (py_strip t) ''```'' \<Longrightarrow>
   clean_response_text t
     = py_join ''\<newline>'' (butlast (tl (py_split (CHR ''\<newline>'') (py_strip t))))\<close>
  by (simp add: clean_response_text_def Let_def)

lemma py_startswith_append:
  assumes "py_startswith s p"
  shows "py_startswith (s @ t) p"
proof -
  from assms have h: "take (length p) s = p" by (simp add: py_startswith_def)
  then have "length (take (length p) s) = length p" by simp
  then have "length p \<le> length s" by simp
  with h show ?thesis by (simp add: py_startswith_def)
qed

lemma py_startswith_split:
  assumes "py_startswith s p"
  shows "s = p @ drop (length p) s"
proof -
  from assms have h: "take (length p) s = p" by (simp add: py_startswith_def)
  have "s = take (length p) s @ drop (length p) s" by simp
  then show ?thesis unfolding h .
qed

lemma py_startswith_strip:
  assumes \<open>py_startswith raw ''```''\<close>
  shows \<open>py_startswith (py_strip raw) ''```''\<close>
proof -
  define rest where \<open>rest = drop (length ''```'') raw\<close>
  have raw: \<open>raw = ''```'' @ rest\<close>
    unfolding rest_def by (rule py_startswith_split [OF assms])
  have nb: \<open>\<not> py_isspace (CHR 0x60)\<close> by (simp add: py_isspace_def)
  have 1: "dropWhile py_isspace raw = raw" unfolding raw using nb by simp
  have \<open>rev raw = rev rest @ ''```''\<close> unfolding raw by simp
  then have \<open>dropWhile py_isspace (rev raw)
      = (if \<forall>x\<in>set (rev rest). py_isspace x then ''```''
         else dropWhile py_isspace (rev rest) @ ''```'')\<close>
    using nb by (simp add: dropWhile_append)
  then have \<open>py_strip raw = ''```'' @ (if \<forall>x\<in>set (rev rest). py_isspace x then []
                                      else rev (dropWhile py_isspace (rev rest)))\<close>
    unfolding py_strip_def 1 by simp
  then show ?thesis by (simp add: py_startswith_def)
qed

section \<open>Facts about the request path\<close>

lemma extract_ok_extension:
  "extract_text_from_file e name file_content = Inr t \<Longrightarrow>
   file_extension name \<in> {''pdf'', ''docx''}"
  by (auto simp: extract_text_from_file_def split: if_splits)

lemma ai_calls_analyze_with_gemini: "ai_calls (snd (analyze_with_gemini e r jd)) = 1"
  by (simp add: analyze_with_gemini_def ai_calls_def Let_def split: sum.splits loads_error.splits)

lemma analyze_with_gemini_calls:
  "GenerateContent (build_analysis_prompt r jd) \<in> set (snd (analyze_with_gemini e r jd))"
  by (simp add: analyze_with_gemini_def Let_def split: sum.splits loads_error.splits)


text \<open>
  A request that passes every check and whose extracted text is long enough is answered
  from what \<open>analyze_with_gemini\<close> returns.
\<close>

lemma analyze_resume_reaches_ai:
  assumes "truthy (GEMINI_API_KEY e)"
    and "resumeFile req = Some file"
    and "py_strip (jobDescription req) \<noteq> []"
    and "read file = Inr file_content"
    and "extract_text_from_file e (filename file) file_content = Inr resume_text"
    and "50 \<le> length (py_strip resume_text)"
  shows "analyze_resume e req =
    (case analyze_with_gemini e resume_text (jobDescription req) of
       (Inl err, events) \<Rightarrow>
          (Inl err,
           [Print (ReadingFile (filename file)), ReadFile, Print ExtractingText, ExtractText,
            Print (ExtractedCharacters (length resume_text)), Print AnalyzingWithGemini] @ events)
     | (Inr analysis_result, events) \<Rightarrow>
          (case render e analysis_result of
             None \<Rightarrow>
               (Inr (JSONResponse 200 analysis_result),
                [Print (ReadingFile (filename file)), ReadFile, Print ExtractingText, ExtractText,
                 Print (ExtractedCharacters (length resume_text)), Print AnalyzingWithGemini]
                @ events @ [Print ReturningResults])
           | Some msg \<Rightarrow>
               (Inl (HTTPException 500 (''Internal server error: '' @ msg)),
                [Print (ReadingFile (filename file)), ReadFile, Print ExtractingText, ExtractText,
                 Print (ExtractedCharacters (length resume_text)), Print AnalyzingWithGemini]
                @ events @ [Print ReturningResults, Print (UnexpectedError msg)])))"
proof -
  from assms(3) have jd: "jobDescription req \<noteq> []" by (auto simp: py_strip_def)
  from assms(6) have rt: "resume_text \<noteq> []" by (auto simp: py_strip_def)
  from assms(5) have ext: "file_extension (filename file) \<in> {''pdf'', ''docx''}"
    by (rule extract_ok_extension)
  show ?thesis
    using assms jd rt ext
    by (simp add: analyze_resume_def analyze_resume_try_def Let_def
        split: prod.splits sum.splits option.splits)
qed

section \<open>The claims\<close>

text \<open>
  C3. When the AI credential is absent (\<^verbatim>\<open>GEMINI_API_KEY\<close> unset, or set to the empty
  string), every request to \<^verbatim>\<open>POST /api/resume/analyze\<close> fails with status 500 and the
  configuration message, and nothing has happened before: no line printed, the upload not
  read, no extraction, no AI call. \<^verbatim>\<open>GET /api/resume/health\<close> then reports
  \<^verbatim>\<open>gemini_configured\<close> as false.
\<close>

theorem missing_key_fails_fast:
  assumes "GEMINI_API_KEY e = None \<or> GEMINI_API_KEY e = Some []"
  shows "analyze_resume e req =
           (Inl (HTTPException 500
                  ''Gemini API key not configured. Please add GEMINI_API_KEY to .env file''), [])
         \<and> map_of (health_check e) ''gemini_configured'' = Some (JBool False)"
  using assms by (auto simp: analyze_resume_def health_check_def truthy_def)

theorem missing_key_fails_fast_witness:
  "GEMINI_API_KEY (sample_env\<lparr>GEMINI_API_KEY := None\<rparr>) = None
   \<and> analyze_resume (sample_env\<lparr>GEMINI_API_KEY := None\<rparr>) sample_request =
           (Inl (HTTPException 500
                  ''Gemini API key not configured. Please add GEMINI_API_KEY to .env file''), [])
   \<and> map_of (health_check (sample_env\<lparr>GEMINI_API_KEY := None\<rparr>)) ''gemini_configured''
       = Some (JBool False)"
  using missing_key_fails_fast [of "sample_env\<lparr>GEMINI_API_KEY := None\<rparr>" sample_request]
  by (simp add: sample_env_def)

text \<open>
  C7, as stated, fails: a request whose job description is blank is answered with 500,
  not 400, when the credential is missing, because the credential is tested first.
\<close>

theorem blank_job_description_without_key:
  "py_strip (jobDescription (sample_request\<lparr>jobDescription := ''   ''\<rparr>)) = []
   \<and> analyze_resume (sample_env\<lparr>GEMINI_API_KEY := None\<rparr>)
        (sample_request\<lparr>jobDescription := ''   ''\<rparr>)
       = (Inl (HTTPException 500
                ''Gemini API key not configured. Please add GEMINI_API_KEY to .env file''), [])"
  by (simp add: analyze_resume_def truthy_def sample_defs py_eval)

text \<open>
  C7, amended. When the credential is configured and the request carries a file, a job
  description that is not empty and consists of whitespace only is answered with status 400
  and the detail \<^verbatim>\<open>Job description is required\<close>, before anything else happens: nothing
  is printed, the upload is not read, no extraction, no AI call. (An empty or missing form
  field is refused by the framework before the endpoint is entered; the statement leaves it
  out.)
\<close>

theorem blank_job_description_rejected:
  assumes "truthy (GEMINI_API_KEY e)"
    and "resumeFile req = Some file"
    and "jobDescription req \<noteq> []"
    and "\<forall>c\<in>set (jobDescription req). py_isspace c"
  shows "analyze_resume e req = (Inl (HTTPException 400 ''Job description is required''), [])"
  using assms by (simp add: analyze_resume_def py_strip_Nil_iff)

theorem blank_job_description_rejected_witness:
  "truthy (GEMINI_API_KEY sample_env)
   \<and> resumeFile (sample_request\<lparr>jobDescription := ''   ''\<rparr>) = Some sample_file
   \<and> jobDescription (sample_request\<lparr>jobDescription := ''   ''\<rparr>) \<noteq> []
   \<and> set (jobDescription (sample_request\<lparr>jobDescription := ''   ''\<rparr>)) = {CHR '' ''}
   \<and> py_isspace (CHR '' '')
   \<and> analyze_resume sample_env (sample_request\<lparr>jobDescription := ''   ''\<rparr>)
       = (Inl (HTTPException 400 ''Job description is required''), [])"
  using blank_job_description_rejected
    [of sample_env "sample_request\<lparr>jobDescription := ''   ''\<rparr>" sample_file]
  by (simp add: truthy_def sample_defs py_isspace_def)

text \<open>
  C5. For a request that passes the checks and whose file is read and extracted: if the
  extracted text, trimmed, has fewer than 50 characters, the answer is status 400 with the
  detail about too little text and the AI is not called at all; if it has at least 50, the
  AI is called, once, with the prompt built from the text and the job description.
\<close>

theorem short_text_never_reaches_ai:
  assumes "truthy (GEMINI_API_KEY e)"
    and "resumeFile req = Some file"
    and "py_strip (jobDescription req) \<noteq> []"
    and "read file = Inr file_content"
    and "extract_text_from_file e (filename file) file_content = Inr resume_text"
  shows "(length (py_strip resume_text) < 50 \<longrightarrow>
            fst (analyze_resume e req) =
              Inl (HTTPException 400
                    ''Could not extract enough text from resume. Please ensure the file is not corrupted or password-protected.'')
            \<and> ai_calls (snd (analyze_resume e req)) = 0)
       \<and> (50 \<le> length (py_strip resume_text) \<longrightarrow>
            GenerateContent (build_analysis_prompt resume_text (jobDescription req))
              \<in> set (snd (analyze_resume e req))
            \<and> ai_calls (snd (analyze_resume e req)) = 1)"
proof (intro conjI impI)
  assume short: "length (py_strip resume_text) < 50"
  from assms(3) have jd: "jobDescription req \<noteq> []" by (auto simp: py_strip_def)
  from assms(5) have ext: "file_extension (filename file) \<in> {''pdf'', ''docx''}"
    by (rule extract_ok_extension)
  have "analyze_resume e req =
          (Inl (HTTPException 400
                 ''Could not extract enough text from resume. Please ensure the file is not corrupted or password-protected.''),
           [Print (ReadingFile (filename file)), ReadFile, Print ExtractingText, ExtractText])"
    using assms jd ext short
    by (simp add: analyze_resume_def analyze_resume_try_def Let_def)
  then show "fst (analyze_resume e req) =
              Inl (HTTPException 400
                    ''Could not extract enough text from resume. Please ensure the file is not corrupted or password-protected.'')"
    and "ai_calls (snd (analyze_resume e req)) = 0"
    by (simp_all add: ai_calls_def)
next
  assume long: "50 \<le> length (py_strip resume_text)"
  note r = analyze_resume_reaches_ai [OF assms long]
  show "GenerateContent (build_analysis_prompt resume_text (jobDescription req))
          \<in> set (snd (analyze_resume e req))"
    using analyze_with_gemini_calls [of resume_text "jobDescription req" e]
    unfolding r by (auto split: prod.splits sum.splits option.splits)
  show "ai_calls (snd (analyze_resume e req)) = 1"
    using ai_calls_analyze_with_gemini [of e resume_text "jobDescription req"]
    unfolding r by (auto simp: ai_calls_def split: prod.splits sum.splits option.splits)
qed

theorem short_text_never_reaches_ai_witness:
  "truthy (GEMINI_API_KEY sample_env)
   \<and> py_strip (jobDescription sample_request) \<noteq> []
   \<and> extract_text_from_file (sample_env\<lparr>PdfReader := \<lambda>b. Inr [''Python developer, 5 years, SQL'']\<rparr>)
        (filename sample_file) [37, 80, 68, 70] = Inr ''Python developer, 5 years, SQL''
   \<and> fst (analyze_resume (sample_env\<lparr>PdfReader := \<lambda>b. Inr [''Python developer, 5 years, SQL'']\<rparr>)
            sample_request)
       = Inl (HTTPException 400
               ''Could not extract enough text from resume. Please ensure the file is not corrupted or password-protected.'')
   \<and> ai_calls (snd (analyze_resume
         (sample_env\<lparr>PdfReader := \<lambda>b. Inr [''Python developer, 5 years, SQL'']\<rparr>) sample_request)) = 0
   \<and> extract_text_from_file sample_env (filename sample_file) [37, 80, 68, 70] = Inr sample_text
   \<and> 50 \<le> length (py_strip sample_text)
   \<and> ai_calls (snd (analyze_resume sample_env sample_request)) = 1"
  using short_text_never_reaches_ai
    [of "sample_env\<lparr>PdfReader := \<lambda>b. Inr [''Python developer, 5 years, SQL'']\<rparr>"
        sample_request sample_file "[37, 80, 68, 70]" "''Python developer, 5 years, SQL''"]
    short_text_never_reaches_ai
    [of sample_env sample_request sample_file "[37, 80, 68, 70]" sample_text]
  by (simp add: truthy_def sample_defs extract_text_from_file_def extract_text_from_pdf_def py_eval)

text \<open>
  C2, as stated, fails: the AI text \<^verbatim>\<open>{"atsScore": 1e999}\<close> is JSON and parses to an
  object whose score is \<^verbatim>\<open>inf\<close>; \<open>analyze_with_gemini\<close> returns it, but the
  \<^verbatim>\<open>JSONResponse\<close> cannot render it and the endpoint answers with status 500.
\<close>

theorem unrenderable_value_answered_500:
  \<open>json_loads sample_env (clean_response_text ''{"atsScore": 1e999}'')
     = Inr (JObject [(''atsScore'', JFloat Infinity)])
   \<and> fst (analyze_with_gemini (sample_env\<lparr>generate_content := \<lambda>p. Inr ''{"atsScore": 1e999}''\<rparr>)
          sample_text (jobDescription sample_request))
       = Inr (JObject [(''atsScore'', JFloat Infinity)])
   \<and> fst (analyze_resume (sample_env\<lparr>generate_content := \<lambda>p. Inr ''{"atsScore": 1e999}''\<rparr>)
          sample_request)
       = Inl (HTTPException 500
               ''Internal server error: Out of range float values are not JSON compliant'')\<close>
  by (simp add: analyze_resume_def analyze_resume_try_def analyze_with_gemini_def
      extract_text_from_file_def extract_text_from_pdf_def clean_response_text_def truthy_def
      sample_defs py_eval)

text \<open>
  C2, amended. When the AI is reached and the text it returns, stripped and with a fence
  removed, parses to a value \<open>v\<close>, then \<open>analyze_with_gemini\<close> returns \<open>v\<close> unchanged,
  whatever \<open>v\<close> is: an object with any keys, or no object at all; nothing is reshaped,
  filtered or validated. If the \<^verbatim>\<open>JSONResponse\<close> renders \<open>v\<close>, the endpoint answers with
  status 200 and exactly \<open>v\<close> as the body; if it raises on \<open>v\<close>, the endpoint answers with
  status 500 and the detail \<^verbatim>\<open>Internal server error: \<close> followed by the message.
\<close>

theorem parsed_value_passed_through:
  assumes "truthy (GEMINI_API_KEY e)"
    and "resumeFile req = Some file"
    and "py_strip (jobDescription req) \<noteq> []"
    and "read file = Inr file_content"
    and "extract_text_from_file e (filename file) file_content = Inr resume_text"
    and "50 \<le> length (py_strip resume_text)"
    and "generate_content e (build_analysis_prompt resume_text (jobDescription req)) = Inr text"
    and "json_loads e (clean_response_text text) = Inr v"
  shows "fst (analyze_with_gemini e resume_text (jobDescription req)) = Inr v
         \<and> (render e v = None \<longrightarrow> fst (analyze_resume e req) = Inr (JSONResponse 200 v))
         \<and> (render e v = Some msg \<longrightarrow>
              fst (analyze_resume e req)
                = Inl (HTTPException 500 (''Internal server error: '' @ msg)))"
proof -
  have g: "analyze_with_gemini e resume_text (jobDescription req) =
          (Inr v, [Print CallingGemini,
                   GenerateContent (build_analysis_prompt resume_text (jobDescription req)),
                   Print AnalysisCompleted])"
    using assms(7,8) by (simp add: analyze_with_gemini_def Let_def)
  show ?thesis
    unfolding analyze_resume_reaches_ai [OF assms(1-6)] g by simp
qed

theorem parsed_value_passed_through_witness:
  \<open>truthy (GEMINI_API_KEY sample_env)
   \<and> resumeFile sample_request = Some sample_file
   \<and> py_strip (jobDescription sample_request) \<noteq> []
   \<and> read sample_file = Inr [37, 80, 68, 70]
   \<and> extract_text_from_file sample_env (filename sample_file) [37, 80, 68, 70] = Inr sample_text
   \<and> 50 \<le> length (py_strip sample_text)
   \<and> json_loads sample_env (clean_response_text ''{"atsScore": 82}'')
        = Inr (JObject [(''atsScore'', JInt 82)])
   \<and> render sample_env (JObject [(''atsScore'', JInt 82)]) = None
   \<and> fst (analyze_resume sample_env sample_request)
        = Inr (JSONResponse 200 (JObject [(''atsScore'', JInt 82)]))
   \<and> json_loads sample_env (clean_response_text ''{"atsScore": 1e999}'')
        = Inr (JObject [(''atsScore'', JFloat Infinity)])
   \<and> render sample_env (JObject [(''atsScore'', JFloat Infinity)])
        = Some ''Out of range float values are not JSON compliant''
   \<and> fst (analyze_resume (sample_env\<lparr>generate_content := \<lambda>p. Inr ''{"atsScore": 1e999}''\<rparr>)
          sample_request)
        = Inl (HTTPException 500
                ''Internal server error: Out of range float values are not JSON compliant'')\<close>
  using parsed_value_passed_through
    [of sample_env sample_request sample_file \<open>[37, 80, 68, 70]\<close> sample_text
        \<open>''{"atsScore": 82}''\<close> \<open>JObject [(''atsScore'', JInt 82)]\<close>
        \<open>''Out of range float values are not JSON compliant''\<close>]
    parsed_value_passed_through
    [of \<open>sample_env\<lparr>generate_content := \<lambda>p. Inr ''{"atsScore": 1e999}''\<rparr>\<close>
        sample_request sample_file \<open>[37, 80, 68, 70]\<close> sample_text
        \<open>''{"atsScore": 1e999}''\<close> \<open>JObject [(''atsScore'', JFloat Infinity)]\<close>
        \<open>''Out of range float values are not JSON compliant''\<close>]
  by (simp add: truthy_def sample_defs extract_text_from_file_def extract_text_from_pdf_def
      clean_response_text_def py_eval)



text \<open>
  C1, as stated, fails: the AI text \<^verbatim>\<open>{"atsScore": 150}\<close> is answered with status 200 and
  the parsed object as body, which has a score above 100 and none of the other fields.
\<close>

theorem out_of_range_score_returned_as_success:
  \<open>fst (analyze_resume (sample_env\<lparr>generate_content := \<lambda>p. Inr ''{"atsScore": 150}''\<rparr>)
          sample_request)
     = Inr (JSONResponse 200 (JObject [(''atsScore'', JInt 150)]))
   \<and> \<not> analysis_result_shape (JObject [(''atsScore'', JInt 150)])\<close>
  by (simp add: analyze_resume_def analyze_resume_try_def analyze_with_gemini_def
      extract_text_from_file_def extract_text_from_pdf_def clean_response_text_def truthy_def
      sample_defs py_eval analysis_result_shape_def)

text \<open>
  C1, amended. Every answer of \<^verbatim>\<open>POST /api/resume/analyze\<close> that is a success has status
  200 and, as its body, exactly the value \<^verbatim>\<open>json.loads\<close> returned for the text of the AI
  (stripped, fence removed) on the text extracted from the uploaded file: a whole parsed
  value, never a part of one. Its shape is not checked.
\<close>

theorem success_body_is_parsed_response:
  assumes "fst (analyze_resume e req) = Inr resp"
  shows "\<exists>file file_content resume_text text v.
           resumeFile req = Some file
           \<and> read file = Inr file_content
           \<and> extract_text_from_file e (filename file) file_content = Inr resume_text
           \<and> generate_content e (build_analysis_prompt resume_text (jobDescription req)) = Inr text
           \<and> json_loads e (clean_response_text text) = Inr v
           \<and> resp = JSONResponse 200 v"
  using assms
  by (auto simp: analyze_resume_def analyze_resume_try_def analyze_with_gemini_def Let_def
      split: if_splits option.splits sum.splits prod.splits loads_error.splits)

theorem success_body_is_parsed_response_witness:
  \<open>fst (analyze_resume sample_env sample_request)
     = Inr (JSONResponse 200 (JObject [(''atsScore'', JInt 82)]))
   \<and> (\<exists>file file_content resume_text text v.
           resumeFile sample_request = Some file
           \<and> read file = Inr file_content
           \<and> extract_text_from_file sample_env (filename file) file_content = Inr resume_text
           \<and> generate_content sample_env
                (build_analysis_prompt resume_text (jobDescription sample_request)) = Inr text
           \<and> json_loads sample_env (clean_response_text text) = Inr v
           \<and> JSONResponse 200 (JObject [(''atsScore'', JInt 82)]) = JSONResponse 200 v)\<close>
proof -
  have ok: \<open>fst (analyze_resume sample_env sample_request)
     = Inr (JSONResponse 200 (JObject [(''atsScore'', JInt 82)]))\<close>
    by (simp add: analyze_resume_def analyze_resume_try_def analyze_with_gemini_def
      extract_text_from_file_def extract_text_from_pdf_def clean_response_text_def truthy_def
      sample_defs py_eval)
  from success_body_is_parsed_response [OF ok] ok show ?thesis by blast
qed

text \<open>
  C4. For a JSON text \<open>j\<close> (the parser accepts it with value \<open>v\<close>; blanks around it do not
  matter to the parser; it does not begin with three backticks), the response
  \<^verbatim>\<open>```json\<close>, newline, \<open>j\<close>, newline, \<^verbatim>\<open>```\<close> is cleaned to exactly \<open>j\<close>, and
  \<open>analyze_with_gemini\<close> returns the same on the fenced response as on \<open>j\<close> itself, the
  value \<open>v\<close>. In general a response that, stripped, begins with three backticks loses its
  first and its last line before parsing, and any other response is parsed as stripped.
\<close>

theorem fence_round_trip:
  assumes \<open>json_loads e j = Inr v\<close>
    and \<open>json_loads e (py_strip j) = Inr v\<close>
    and \<open>\<not> py_startswith (py_strip j) ''```''\<close>
  shows \<open>clean_response_text (fenced j) = j
         \<and> clean_response_text j = py_strip j
         \<and> fst (analyze_with_gemini
                 (e\<lparr>generate_content := \<lambda>p. Inr (fenced j)\<rparr>)
                 resume_text job_description) = Inr v
         \<and> analyze_with_gemini
              (e\<lparr>generate_content := \<lambda>p. Inr (fenced j)\<rparr>)
              resume_text job_description
           = analyze_with_gemini (e\<lparr>generate_content := \<lambda>p. Inr j\<rparr>) resume_text job_description
         \<and> (py_startswith (py_strip t) ''```'' \<longrightarrow>
              clean_response_text t
                = py_join ''\<newline>'' (butlast (tl (py_split (CHR ''\<newline>'') (py_strip t)))))
         \<and> (\<not> py_startswith (py_strip t) ''```'' \<longrightarrow> clean_response_text t = py_strip t)\<close>
proof -
  note f = clean_fenced [of j]
  note u = clean_unfenced [OF assms(3)]
  have a: \<open>analyze_with_gemini
              (e\<lparr>generate_content := \<lambda>p. Inr (fenced j)\<rparr>)
              resume_text job_description
            = (Inr v, [Print CallingGemini,
                       GenerateContent (build_analysis_prompt resume_text job_description),
                       Print AnalysisCompleted])\<close>
    unfolding analyze_with_gemini_def Let_def using assms(1) by (simp add: f)
  have b: \<open>analyze_with_gemini (e\<lparr>generate_content := \<lambda>p. Inr j\<rparr>) resume_text job_description
            = (Inr v, [Print CallingGemini,
                       GenerateContent (build_analysis_prompt resume_text job_description),
                       Print AnalysisCompleted])\<close>
    unfolding analyze_with_gemini_def Let_def using assms(2) by (simp add: u)
  show ?thesis
    unfolding a b using f u by (simp add: clean_starts_fenced clean_unfenced)
qed

theorem fence_round_trip_witness:
  \<open>json_loads sample_env ''{"atsScore": 82}'' = Inr (JObject [(''atsScore'', JInt 82)])
   \<and> json_loads sample_env (py_strip ''{"atsScore": 82}'') = Inr (JObject [(''atsScore'', JInt 82)])
   \<and> \<not> py_startswith (py_strip ''{"atsScore": 82}'') ''```''
   \<and> fenced ''{"atsScore": 82}'' = ''```json\<newline>{"atsScore": 82}\<newline>```''
   \<and> clean_response_text (fenced ''{"atsScore": 82}'') = ''{"atsScore": 82}''
   \<and> clean_response_text ''{"atsScore": 82}'' = py_strip ''{"atsScore": 82}''
   \<and> fst (analyze_with_gemini
            (sample_env\<lparr>generate_content := \<lambda>p. Inr (fenced ''{"atsScore": 82}'')\<rparr>)
            sample_text ''Python engineer'') = Inr (JObject [(''atsScore'', JInt 82)])
   \<and> analyze_with_gemini
         (sample_env\<lparr>generate_content := \<lambda>p. Inr (fenced ''{"atsScore": 82}'')\<rparr>)
         sample_text ''Python engineer''
       = analyze_with_gemini (sample_env\<lparr>generate_content := \<lambda>p. Inr ''{"atsScore": 82}''\<rparr>)
           sample_text ''Python engineer''
   \<and> py_startswith (py_strip (fenced ''{"atsScore": 82}'')) ''```''
   \<and> clean_response_text (fenced ''{"atsScore": 82}'')
       = py_join ''\<newline>''
           (butlast (tl (py_split (CHR ''\<newline>'') (py_strip (fenced ''{"atsScore": 82}'')))))\<close>
proof -
  have h1: \<open>json_loads sample_env ''{"atsScore": 82}'' = Inr (JObject [(''atsScore'', JInt 82)])\<close>
    by (simp add: sample_defs)
  have h2: \<open>json_loads sample_env (py_strip ''{"atsScore": 82}'')
              = Inr (JObject [(''atsScore'', JInt 82)])\<close>
    by (simp add: sample_defs py_eval)
  have h3: \<open>\<not> py_startswith (py_strip ''{"atsScore": 82}'') ''```''\<close>
    by (simp add: py_eval)
  have f: \<open>fenced ''{"atsScore": 82}'' = ''```json\<newline>{"atsScore": 82}\<newline>```''\<close>
    by (simp add: fenced_def)
  have sw: \<open>py_startswith (py_strip (fenced ''{"atsScore": 82}'')) ''```''\<close>
    unfolding f by (simp add: py_eval)
  note w = fence_round_trip
    [OF h1 h2 h3, of sample_text \<open>''Python engineer''\<close> \<open>fenced ''{"atsScore": 82}''\<close>]
  from w sw have e: \<open>clean_response_text (fenced ''{"atsScore": 82}'')
       = py_join ''\<newline>''
           (butlast (tl (py_split (CHR ''\<newline>'') (py_strip (fenced ''{"atsScore": 82}'')))))\<close>
    by blast
  from w have a: \<open>clean_response_text (fenced ''{"atsScore": 82}'') = ''{"atsScore": 82}''\<close>
    and b: \<open>clean_response_text ''{"atsScore": 82}'' = py_strip ''{"atsScore": 82}''\<close>
    and c: \<open>fst (analyze_with_gemini
            (sample_env\<lparr>generate_content := \<lambda>p. Inr (fenced ''{"atsScore": 82}'')\<rparr>)
            sample_text ''Python engineer'') = Inr (JObject [(''atsScore'', JInt 82)])\<close>
    and d: \<open>analyze_with_gemini
         (sample_env\<lparr>generate_content := \<lambda>p. Inr (fenced ''{"atsScore": 82}'')\<rparr>)
         sample_text ''Python engineer''
       = analyze_with_gemini (sample_env\<lparr>generate_content := \<lambda>p. Inr ''{"atsScore": 82}''\<rparr>)
           sample_text ''Python engineer''\<close>
    by blast+
  from h1 h2 h3 f a b c d sw e show ?thesis by (intro conjI)
qed

text \<open>
  C9. A response whose first line begins with three backticks loses its first and its last
  line, whatever the last line is: for lines \<open>first\<close>, \<open>middle\<close>, \<open>final\<close> joined by
  newlines only \<open>middle\<close> reaches the parser, and \<open>final\<close> need not be a closing fence. With
  no \<open>middle\<close> (a leading fence line and a single line of payload) the parser gets the empty
  text. In general, when the raw response begins with three backticks, the first and the
  last line of the stripped response are removed.
\<close>

theorem leading_fence_drops_last_line:
  assumes \<open>py_startswith first ''```''\<close>
    and \<open>\<forall>l\<in>set (first # middle @ [final]). CHR ''\<newline>'' \<notin> set l\<close>
    and \<open>final \<noteq> []\<close>
    and \<open>\<not> py_isspace (last final)\<close>
  shows \<open>clean_response_text (py_join ''\<newline>'' (first # middle @ [final]))
           = py_join ''\<newline>'' middle
         \<and> (py_startswith raw ''```'' \<longrightarrow>
              clean_response_text raw
                = py_join ''\<newline>'' (butlast (tl (py_split (CHR ''\<newline>'') (py_strip raw)))))\<close>
proof -
  let ?t = \<open>py_join ''\<newline>'' (first # middle @ [final])\<close>
  define rest where \<open>rest = drop (length ''```'') first\<close>
  have first: \<open>first = ''```'' @ rest\<close>
    unfolding rest_def by (rule py_startswith_split [OF assms(1)])
  have t: \<open>?t = first @ ''\<newline>'' @ py_join ''\<newline>'' (middle @ [final])\<close>
    by (simp add: py_join_Cons)
  have ne: "?t \<noteq> []" using first by (simp add: py_join_Cons)
  have hd: \<open>hd ?t = CHR 0x60\<close> using first by (simp add: py_join_Cons)
  have "?t = py_join ''\<newline>'' ((first # middle) @ [final])" by simp
  then have "last ?t = last final"
    using last_py_join [OF assms(3), of "''\<newline>''" "first # middle"] by simp
  with assms(4) have la: "\<not> py_isspace (last ?t)" by simp
  have st: "py_strip ?t = ?t"
    using ne la by (intro py_strip_id) (simp_all add: hd py_isspace_def)
  have sw: \<open>py_startswith ?t ''```''\<close>
    unfolding t by (rule py_startswith_append [OF assms(1)])
  have sp: \<open>py_split (CHR ''\<newline>'') ?t = first # middle @ [final]\<close>
    using py_split_join [of "first # middle @ [final]" "CHR ''\<newline>''"] assms(2) by simp
  have \<open>clean_response_text ?t = py_join ''\<newline>'' middle\<close>
    unfolding clean_response_text_def Let_def st sp using sw by simp
  then show ?thesis
    by (simp add: clean_starts_fenced py_startswith_strip)
qed

theorem leading_fence_drops_last_line_witness:
  \<open>py_startswith ''```json'' ''```''
   \<and> \<not> py_isspace (last ''{"atsScore": 82}'')
   \<and> clean_response_text ''```json\<newline>{"atsScore": 82}'' = []
   \<and> clean_response_text ''```json\<newline>{"atsScore": 82}''
       = py_join ''\<newline>''
           (butlast (tl (py_split (CHR ''\<newline>'') (py_strip ''```json\<newline>{"atsScore": 82}''))))\<close>
proof -
  have h1: \<open>py_startswith ''```json'' ''```''\<close>
    by (simp add: py_startswith_def)
  have h2: \<open>\<forall>l\<in>set (''```json'' # [] @ [''{"atsScore": 82}'']). CHR ''\<newline>'' \<notin> set l\<close>
    by simp
  have h3: \<open>''{"atsScore": 82}'' \<noteq> []\<close>
    by simp
  have h4: \<open>\<not> py_isspace (last ''{"atsScore": 82}'')\<close>
    by (simp add: py_isspace_def)
  have sw: \<open>py_startswith ''```json\<newline>{"atsScore": 82}'' ''```''\<close>
    by (simp add: py_startswith_def)
  note w = leading_fence_drops_last_line
    [OF h1 h2 h3 h4, of \<open>''```json\<newline>{"atsScore": 82}''\<close>]
  from w have \<open>clean_response_text (py_join ''\<newline>'' (''```json'' # [] @ [''{"atsScore": 82}'']))
                = py_join ''\<newline>'' []\<close>
    by (rule conjunct1)
  then have a: \<open>clean_response_text ''```json\<newline>{"atsScore": 82}'' = []\<close>
    by simp
  from w have b: \<open>py_startswith ''```json\<newline>{"atsScore": 82}'' ''```'' \<longrightarrow>
     clean_response_text ''```json\<newline>{"atsScore": 82}''
       = py_join ''\<newline>''
           (butlast (tl (py_split (CHR ''\<newline>'') (py_strip ''```json\<newline>{"atsScore": 82}''))))\<close>
    by (rule conjunct2)
  from b sw have c: \<open>clean_response_text ''```json\<newline>{"atsScore": 82}''
       = py_join ''\<newline>''
           (butlast (tl (py_split (CHR ''\<newline>'') (py_strip ''```json\<newline>{"atsScore": 82}''))))\<close>
    by (rule mp)
  from h1 h4 a c show ?thesis by (intro conjI)
qed

text \<open>
  C6, as stated, fails for the endpoint: for the upload \<^verbatim>\<open>resume.txt\<close> the endpoint's
  detail is \<^verbatim>\<open>Invalid file type. Allowed: pdf, docx\<close>, in which the offending extension
  \<^verbatim>\<open>txt\<close> does not occur.
\<close>

theorem endpoint_detail_omits_extension:
  \<open>extension_after_last_dot ''resume.txt'' = ''txt''
   \<and> fst (analyze_resume sample_env
            (sample_request\<lparr>resumeFile := Some (sample_file\<lparr>filename := ''resume.txt''\<rparr>)\<rparr>))
       = Inl (HTTPException 400 ''Invalid file type. Allowed: pdf, docx'')
   \<and> \<not> py_in ''txt'' ''Invalid file type. Allowed: pdf, docx''\<close>
  by (simp add: extension_after_last_dot_def analyze_resume_def truthy_def sample_defs py_eval)

text \<open>
  C6, amended. For every filename whose extension (the substring after the last dot,
  lower-cased) is neither \<^verbatim>\<open>pdf\<close> nor \<^verbatim>\<open>docx\<close>: \<open>extract_text_from_file\<close> fails with
  status 400 and a detail that carries the offending extension and names PDF and DOCX;
  and the endpoint, when the credential is configured, a file is supplied and the job
  description is not blank, fails with status 400 and the detail
  \<^verbatim>\<open>Invalid file type. Allowed: pdf, docx\<close>, which carries the supported set only, before
  the upload is read.
\<close>

theorem unsupported_extension_rejected:
  assumes \<open>extension_after_last_dot name \<notin> {''pdf'', ''docx''}\<close>
  shows \<open>extract_text_from_file e name file_content
           = Inl (HTTPException 400
                   (''Unsupported file format: '' @ extension_after_last_dot name
                    @ ''. Only PDF and DOCX are supported.''))
         \<and> (truthy (GEMINI_API_KEY e) \<and> resumeFile req = Some file \<and> filename file = name
              \<and> py_strip (jobDescription req) \<noteq> [] \<longrightarrow>
             analyze_resume e req
               = (Inl (HTTPException 400 ''Invalid file type. Allowed: pdf, docx''), []))\<close>
proof -
  from assms have ext: \<open>file_extension name \<noteq> ''pdf''\<close> \<open>file_extension name \<noteq> ''docx''\<close>
    by (simp_all add: file_extension_refines)
  have a: \<open>extract_text_from_file e name file_content
           = Inl (HTTPException 400
                   (''Unsupported file format: '' @ extension_after_last_dot name
                    @ ''. Only PDF and DOCX are supported.''))\<close>
    using ext by (simp add: extract_text_from_file_def file_extension_refines)
  have b: \<open>analyze_resume e req
               = (Inl (HTTPException 400 ''Invalid file type. Allowed: pdf, docx''), [])\<close>
    if \<open>truthy (GEMINI_API_KEY e)\<close> \<open>resumeFile req = Some file\<close> \<open>filename file = name\<close>
      \<open>py_strip (jobDescription req) \<noteq> []\<close>
  proof -
    from that(4) have \<open>jobDescription req \<noteq> []\<close> by (auto simp: py_strip_def)
    with that ext show ?thesis by (simp add: analyze_resume_def)
  qed
  from a b show ?thesis by blast
qed

theorem unsupported_extension_rejected_witness:
  \<open>extension_after_last_dot ''resume.txt'' = ''txt''
   \<and> extract_text_from_file sample_env ''resume.txt'' [37, 80, 68, 70]
       = Inl (HTTPException 400 ''Unsupported file format: txt. Only PDF and DOCX are supported.'')
   \<and> analyze_resume sample_env
        (sample_request\<lparr>resumeFile := Some (sample_file\<lparr>filename := ''resume.txt''\<rparr>)\<rparr>)
       = (Inl (HTTPException 400 ''Invalid file type. Allowed: pdf, docx''), [])\<close>
proof -
  have x: \<open>extension_after_last_dot ''resume.txt'' = ''txt''\<close>
    by (simp add: extension_after_last_dot_def py_eval)
  then have h: \<open>extension_after_last_dot ''resume.txt'' \<notin> {''pdf'', ''docx''}\<close>
    by simp
  note w = unsupported_extension_rejected
    [OF h, of sample_env \<open>[37, 80, 68, 70]\<close>
       \<open>sample_request\<lparr>resumeFile := Some (sample_file\<lparr>filename := ''resume.txt''\<rparr>)\<rparr>\<close>
       \<open>sample_file\<lparr>filename := ''resume.txt''\<rparr>\<close>]
  show ?thesis using w x by (simp add: truthy_def sample_defs py_strip_def py_isspace_def)
qed



end
